theory Spec2Isabelle
  imports Main
begin

section \<open>The index cleaner script \<^verbatim>\<open>scripts/esCleaner.py\<close>\<close>

text \<open>
  The script is a linear sequence of calls into two libraries that are not part of the
  repository (the cluster client and the index-management library), with two early exits.
  The embedding keeps that shape: a run of the script is a pair of the calls and prints it
  made, in order, and the way it ended.  What the libraries answer is a parameter of the
  run (a \<open>world\<close>), so that every theorem about \<open>main\<close> holds whatever the cluster
  and the libraries do.
\<close>

subsection \<open>Exceptions and the way a run ends\<close>

text \<open>
  The exceptions the libraries may raise: \<^verbatim>\<open>curator.NoIndices\<close>, the one class the
  script names in an \<^verbatim>\<open>except\<close> clause, and every other error (\<open>Other\<close>, with the
  name of its class).
\<close>

datatype exn = NoIndices | Other string

text \<open>
  A statement ends normally (\<open>Ok\<close>), with an exception on its way up (\<open>Raise\<close>), or with
  \<^verbatim>\<open>sys.exit(n)\<close> (\<open>SysExit\<close>: Python's \<^verbatim>\<open>SystemExit\<close>, which is not a
  \<^verbatim>\<open>curator.NoIndices\<close> and so passes every handler of the script).
\<close>

datatype 'a result = Ok 'a | Raise exn | SysExit int

subsection \<open>The objects of the libraries\<close>

text \<open>\<^verbatim>\<open>elasticsearch.Elasticsearch(hosts)\<close>: the client handle, with the hosts it was built from.\<close>

datatype client = Client (hosts: "string list")

text \<open>
  \<^verbatim>\<open>curator.IndexList\<close>: the object \<^verbatim>\<open>ilo\<close>.  Of its attributes the script depends on
  \<^verbatim>\<open>indices\<close> alone, the names of the indices still in the working list.
\<close>

record index_list =
  indices :: "string list"

text \<open>The keyword arguments of \<^verbatim>\<open>IndexList.filter_by_age\<close> that the script passes.\<close>

record age_filter =
  source :: string
  direction :: string
  timestring :: string
  unit :: string
  unit_count :: int

text \<open>
  \<^verbatim>\<open>curator.DeleteIndices(ilo)\<close>: the action object, which holds the index list it was
  built from.
\<close>

datatype delete_indices = DeleteIndices (index_list: index_list)

subsection \<open>The world: what the libraries answer\<close>

text \<open>
  Each call into a library either returns or raises.  The four calls that reach the cluster
  are fields of the world; \<open>Inl e\<close> is the call raising \<open>e\<close>.
\<close>

record world =
  Elasticsearch :: "string list \<Rightarrow> exn + client"
  IndexList :: "client \<Rightarrow> exn + index_list"
  filter_by_age :: "age_filter \<Rightarrow> index_list \<Rightarrow> exn + index_list"
  do_action :: "delete_indices \<Rightarrow> exn + unit"

text \<open>
  Modelled from the spec: \<^verbatim>\<open>IndexList.empty_list_check\<close> of the index-management library,
  which is not part of the repository.  The spec: the index list ``fails with a "no
  indices" signal when empty''.
\<close>

definition empty_list_check :: "index_list \<Rightarrow> exn + unit" where
  "empty_list_check ilo = (if indices ilo = [] then Inl NoIndices else Inr ())"

subsection \<open>Runs\<close>

text \<open>What a run does that can be seen from outside: its prints and its library calls.\<close>

datatype event =
    Print string
  | Connect "string list"
  | Enumerate client
  | Filter age_filter index_list
  | Delete delete_indices

type_synonym 'a run = "event list \<times> 'a result"

text \<open>Sequencing: the second statement runs only when the first ended normally.\<close>

definition and_then :: "'a run \<Rightarrow> ('a \<Rightarrow> 'b run) \<Rightarrow> 'b run" where
  "and_then m f =
     (case m of
        (tr, Ok a) \<Rightarrow> (case f a of (tr', r) \<Rightarrow> (tr @ tr', r))
      | (tr, Raise e) \<Rightarrow> (tr, Raise e)
      | (tr, SysExit n) \<Rightarrow> (tr, SysExit n))"

definition skip :: "unit run" where
  "skip = ([], Ok ())"

definition print :: "string \<Rightarrow> unit run" where
  "print s = ([Print s], Ok ())"

definition sys_exit :: "int \<Rightarrow> 'a run" where
  "sys_exit n = ([], SysExit n)"

text \<open>A library call: the event is recorded, then the call returns or raises.\<close>

definition call :: "event \<Rightarrow> exn + 'a \<Rightarrow> 'a run" where
  "call ev r = ([ev], case r of Inl e \<Rightarrow> Raise e | Inr a \<Rightarrow> Ok a)"

subsection \<open>The script\<close>

text \<open>
  \<^verbatim>\<open>
  def empty_list(ilo, error_msg):
      try:
          ilo.empty_list_check()
      except curator.NoIndices:
          print(error_msg)
          sys.exit(0)
  \<close>
\<close>

definition empty_list :: "index_list \<Rightarrow> string \<Rightarrow> unit run" where
  "empty_list ilo error_msg =
     (case empty_list_check ilo of
        Inl NoIndices \<Rightarrow> and_then (print error_msg) (\<lambda>_. sys_exit 0)
      | Inl (Other c) \<Rightarrow> ([], Raise (Other c))
      | Inr _ \<Rightarrow> skip)"

text \<open>\<^verbatim>\<open>'USAGE: %s HOSTNAME[:PORT] ...' % sys.argv[0]\<close>\<close>

definition usage :: "string \<Rightarrow> string" where
  "usage argv0 = ''USAGE: '' @ argv0 @ '' HOSTNAME[:PORT] ...''"

text \<open>The keyword arguments of the one call of \<^verbatim>\<open>filter_by_age\<close>.\<close>

definition filter_kwargs :: age_filter where
  "filter_kwargs =
     \<lparr>source = ''name'', direction = ''older'', timestring = ''%Y-%m-%d'',
      unit = ''days'', unit_count = 4\<rparr>"

text \<open>
  \<^verbatim>\<open>
  def main():
      if len(sys.argv) == 1:
          print('USAGE: %s HOSTNAME[:PORT] ...' % sys.argv[0])
          sys.exit(1)
      client = elasticsearch.Elasticsearch(sys.argv[1:])
      ilo = curator.IndexList(client)
      empty_list(ilo, 'ElasticSearch has no indices')
      ilo.filter_by_age(source='name', direction='older', timestring='%Y-%m-%d',
                        unit='days', unit_count=4)
      empty_list(ilo, 'No indices to delete')
      delete_indices = curator.DeleteIndices(ilo)
      delete_indices.do_action()
  \<close>
  \<open>filter_by_age\<close> changes \<^verbatim>\<open>ilo\<close> in place; here it returns the changed list, which
  the statements after it use.  \<open>argv\<close> is \<^verbatim>\<open>sys.argv\<close>, and \<^verbatim>\<open>sys.argv[1:]\<close> is
  \<open>drop 1 argv\<close>.
\<close>

definition main :: "world \<Rightarrow> string list \<Rightarrow> unit run" where
  "main w argv =
     and_then (if length argv = 1
               then and_then (print (usage (argv ! 0))) (\<lambda>_. sys_exit 1)
               else skip) (\<lambda>_.
     and_then (call (Connect (drop 1 argv)) (Elasticsearch w (drop 1 argv))) (\<lambda>client.
     and_then (call (Enumerate client) (IndexList w client)) (\<lambda>ilo.
     and_then (empty_list ilo ''ElasticSearch has no indices'') (\<lambda>_.
     and_then (call (Filter filter_kwargs ilo) (filter_by_age w filter_kwargs ilo)) (\<lambda>ilo'.
     and_then (empty_list ilo' ''No indices to delete'') (\<lambda>_.
     call (Delete (DeleteIndices ilo')) (do_action w (DeleteIndices ilo'))))))))"

text \<open>
  The status the process ends with: the argument of \<^verbatim>\<open>sys.exit\<close>; 0 when \<^verbatim>\<open>main\<close>
  returns and the script ends; 1 when an exception reaches the interpreter, which prints
  the traceback and exits with 1.
\<close>

fun exit_status :: "unit result \<Rightarrow> int" where
  "exit_status (Ok _) = 0"
| "exit_status (SysExit n) = n"
| "exit_status (Raise e) = 1"

text \<open>The parts of a run the claims speak of.\<close>

definition trace :: "'a run \<Rightarrow> event list" where
  "trace r = fst r"

definition outcome :: "'a run \<Rightarrow> 'a result" where
  "outcome r = snd r"

fun connect_calls :: "event list \<Rightarrow> string list list" where
  "connect_calls [] = []"
| "connect_calls (Connect hs # evs) = hs # connect_calls evs"
| "connect_calls (_ # evs) = connect_calls evs"

fun filter_calls :: "event list \<Rightarrow> (age_filter \<times> index_list) list" where
  "filter_calls [] = []"
| "filter_calls (Filter p ilo # evs) = (p, ilo) # filter_calls evs"
| "filter_calls (_ # evs) = filter_calls evs"

fun delete_calls :: "event list \<Rightarrow> index_list list" where
  "delete_calls [] = []"
| "delete_calls (Delete d # evs) = index_list d # delete_calls evs"
| "delete_calls (_ # evs) = delete_calls evs"

fun printed :: "event list \<Rightarrow> string list" where
  "printed [] = []"
| "printed (Print s # evs) = s # printed evs"
| "printed (_ # evs) = printed evs"

subsection \<open>Which call raised\<close>

text \<open>\<open>raises w ev e\<close>: the library call that the event \<open>ev\<close> records raises \<open>e\<close> in the world \<open>w\<close>.\<close>

fun raises :: "world \<Rightarrow> event \<Rightarrow> exn \<Rightarrow> bool" where
  "raises w (Print s) e = False"
| "raises w (Connect hs) e = (Elasticsearch w hs = Inl e)"
| "raises w (Enumerate c) e = (IndexList w c = Inl e)"
| "raises w (Filter p ilo) e = (filter_by_age w p ilo = Inl e)"
| "raises w (Delete d) e = (do_action w d = Inl e)"

subsection \<open>The age filter, for the scenarios\<close>

text \<open>
  The age filter is \<^verbatim>\<open>IndexList.filter_by_age\<close> of the index-management library, which
  is not part of the repository.  What follows is modelled from the spec, which says of
  it: the filter keeps the indices ``whose name encodes a date older than 4 days from
  now'', the date pattern being \<^verbatim>\<open>YYYY-MM-DD\<close> ``embedded in the name'' and the unit
  days.  ``Now'' is an explicit parameter, in seconds since 1970-01-01 00:00, and a date
  stands for its midnight.
\<close>

text \<open>Modelled from the spec: a decimal digit of the pattern \<^verbatim>\<open>YYYY-MM-DD\<close>, and its value.\<close>

definition digit_val :: "char \<Rightarrow> int option" where
  "digit_val c =
     (let n = of_char c :: nat in if 48 \<le> n \<and> n \<le> 57 then Some (int n - 48) else None)"

text \<open>Modelled from the spec: the number that a string of digits writes.\<close>

fun number :: "int \<Rightarrow> string \<Rightarrow> int option" where
  "number acc [] = Some acc"
| "number acc (c # cs) =
     (case digit_val c of None \<Rightarrow> None | Some d \<Rightarrow> number (10 * acc + d) cs)"

text \<open>
  Modelled from the spec: the string starts with the pattern \<^verbatim>\<open>YYYY-MM-DD\<close> (four
  digits, a dash, two digits, a dash, two digits); the result is year, month and day.
\<close>

definition date_prefix :: "string \<Rightarrow> (int \<times> int \<times> int) option" where
  "date_prefix s =
     (if length s < 10 \<or> s ! 4 \<noteq> CHR ''-'' \<or> s ! 7 \<noteq> CHR ''-'' then None
      else case (number 0 (take 4 s), number 0 (take 2 (drop 5 s)), number 0 (take 2 (drop 8 s))) of
             (Some y, Some m, Some d) \<Rightarrow> Some (y, m, d)
           | _ \<Rightarrow> None)"

text \<open>
  Modelled from the spec: the pattern ``embedded in the name'', that is its first
  occurrence anywhere in the name.
\<close>

fun find_date :: "string \<Rightarrow> (int \<times> int \<times> int) option" where
  "find_date [] = None"
| "find_date (c # cs) =
     (case date_prefix (c # cs) of Some d \<Rightarrow> Some d | None \<Rightarrow> find_date cs)"

text \<open>The Gregorian calendar: leap years, the lengths of the months, the dates that exist.\<close>

definition leap_year :: "int \<Rightarrow> bool" where
  "leap_year y \<longleftrightarrow> y mod 4 = 0 \<and> (y mod 100 \<noteq> 0 \<or> y mod 400 = 0)"

definition days_in_month :: "int \<Rightarrow> int \<Rightarrow> int" where
  "days_in_month y m =
     (if m = 2 then (if leap_year y then 29 else 28)
      else if m = 4 \<or> m = 6 \<or> m = 9 \<or> m = 11 then 30 else 31)"

definition valid_date :: "int \<times> int \<times> int \<Rightarrow> bool" where
  "valid_date ymd = (case ymd of (y, m, d) \<Rightarrow>
     1 \<le> y \<and> 1 \<le> m \<and> m \<le> 12 \<and> 1 \<le> d \<and> d \<le> days_in_month y m)"

text \<open>The number of days from 1970-01-01 to the date (negative before it).\<close>

definition days_from_civil :: "int \<times> int \<times> int \<Rightarrow> int" where
  "days_from_civil ymd = (case ymd of (y, m, d) \<Rightarrow>
     (let y' = (if m \<le> 2 then y - 1 else y);
          era = y' div 400;
          yoe = y' - era * 400;
          doy = (153 * (if 2 < m then m - 3 else m + 9) + 2) div 5 + d - 1;
          doe = yoe * 365 + yoe div 4 - yoe div 100 + doy
      in era * 146097 + doe - 719468))"

text \<open>
  Modelled from the spec: the date that a name encodes, as the second its day starts at.
  A name that embeds no date of the calendar encodes none.
\<close>

definition name_epoch :: "string \<Rightarrow> int option" where
  "name_epoch name =
     (case find_date name of
        None \<Rightarrow> None
      | Some ymd \<Rightarrow> if valid_date ymd then Some (86400 * days_from_civil ymd) else None)"

text \<open>
  Modelled from the spec: the name ``encodes a date older than \<open>n\<close> days from now''.  A
  name that encodes no date is not older.
\<close>

definition older_than :: "int \<Rightarrow> int \<Rightarrow> string \<Rightarrow> bool" where
  "older_than now n name =
     (case name_epoch name of None \<Rightarrow> False | Some t \<Rightarrow> t < now - n * 86400)"

text \<open>
  Modelled from the spec: the age filter at the time \<open>now\<close>.  The spec describes one
  configuration only (source the index name, direction older, pattern \<^verbatim>\<open>%Y-%m-%d\<close>,
  unit days); for it the filter keeps the names older than the count, in their order,
  and the model refuses every other configuration.
\<close>

definition filter_older_by_name :: "int \<Rightarrow> age_filter \<Rightarrow> index_list \<Rightarrow> exn + index_list" where
  "filter_older_by_name now p ilo =
     (if source p = ''name'' \<and> direction p = ''older'' \<and> timestring p = ''%Y-%m-%d''
         \<and> unit p = ''days''
      then Inr (ilo\<lparr>indices := filter (older_than now (unit_count p)) (indices ilo)\<rparr>)
      else Inl (Other ''ValueError''))"

text \<open>The instant \<open>now\<close> falls on the calendar day \<open>ymd\<close>.\<close>

definition on_day :: "int \<times> int \<times> int \<Rightarrow> int \<Rightarrow> bool" where
  "on_day ymd now \<longleftrightarrow>
     86400 * days_from_civil ymd \<le> now \<and> now < 86400 * (days_from_civil ymd + 1)"

text \<open>
  Modelled from the spec: a cluster as the scenarios of the spec describe one.  It holds
  the indices \<open>names\<close> at the time \<open>now\<close>, any endpoints reach it, the enumeration
  returns its indices, the filter is the one above, and the deletion answers \<open>del\<close>.
\<close>

definition cluster_world :: "int \<Rightarrow> string list \<Rightarrow> exn + unit \<Rightarrow> world" where
  "cluster_world now names del =
     \<lparr>Elasticsearch = (\<lambda>hs. Inr (Client hs)),
      IndexList = (\<lambda>c. Inr \<lparr>indices = names\<rparr>),
      filter_by_age = filter_older_by_name now,
      do_action = (\<lambda>d. del)\<rparr>"

section \<open>Helper facts\<close>

text \<open>The seven ways a run can go, by what the world answers.\<close>

lemma main_run:
  "main w argv =
     (if length argv = 1 then ([Print (usage (argv ! 0))], SysExit 1)
      else case Elasticsearch w (drop 1 argv) of
        Inl e \<Rightarrow> ([Connect (drop 1 argv)], Raise e)
      | Inr c \<Rightarrow>
         (case IndexList w c of
            Inl e \<Rightarrow> ([Connect (drop 1 argv), Enumerate c], Raise e)
          | Inr ilo \<Rightarrow>
             if indices ilo = []
             then ([Connect (drop 1 argv), Enumerate c, Print ''ElasticSearch has no indices''],
                   SysExit 0)
             else
               (case filter_by_age w filter_kwargs ilo of
                  Inl e \<Rightarrow>
                    ([Connect (drop 1 argv), Enumerate c, Filter filter_kwargs ilo], Raise e)
                | Inr ilo' \<Rightarrow>
                    if indices ilo' = []
                    then ([Connect (drop 1 argv), Enumerate c, Filter filter_kwargs ilo,
                           Print ''No indices to delete''], SysExit 0)
                    else
                      ([Connect (drop 1 argv), Enumerate c, Filter filter_kwargs ilo,
                        Delete (DeleteIndices ilo')],
                       case do_action w (DeleteIndices ilo') of
                         Inl e \<Rightarrow> Raise e
                       | Inr u \<Rightarrow> Ok u))))"
  by (simp add: main_def and_then_def skip_def print_def sys_exit_def call_def
      empty_list_def empty_list_check_def split: sum.splits)

lemma main_no_args:
  "main w [prog] = ([Print (usage prog)], SysExit 1)"
  by (simp add: main_run)

lemma usage_not_message:
  "usage a \<noteq> ''ElasticSearch has no indices''" "usage a \<noteq> ''No indices to delete''"
  by (simp_all add: usage_def)

text \<open>The runs against \<open>cluster_world\<close>, with at least one endpoint.\<close>

lemma cluster_run:
  "main (cluster_world now names del) (prog # a # args) =
     (if names = []
      then ([Connect (a # args), Enumerate (Client (a # args)),
             Print ''ElasticSearch has no indices''], SysExit 0)
      else if filter (older_than now 4) names = []
      then ([Connect (a # args), Enumerate (Client (a # args)),
             Filter filter_kwargs \<lparr>indices = names\<rparr>, Print ''No indices to delete''],
            SysExit 0)
      else ([Connect (a # args), Enumerate (Client (a # args)),
             Filter filter_kwargs \<lparr>indices = names\<rparr>,
             Delete (DeleteIndices \<lparr>indices = filter (older_than now 4) names\<rparr>)],
            case del of Inl e \<Rightarrow> Raise e | Inr u \<Rightarrow> Ok u))"
  by (simp add: main_run cluster_world_def filter_older_by_name_def filter_kwargs_def)

text \<open>The dates of the scenario, in seconds since 1970-01-01.\<close>

lemma name_epoch_jan_01: "name_epoch ''logs-2023-01-01'' = Some 1672531200"
  by code_simp

lemma name_epoch_jan_05: "name_epoch ''logs-2023-01-05'' = Some 1672876800"
  by code_simp

lemma name_epoch_jan_10: "name_epoch ''logs-2023-01-10'' = Some 1673308800"
  by code_simp

lemma on_day_jan_10: "on_day (2023, 1, 10) now \<longleftrightarrow> 1673308800 \<le> now \<and> now < 1673395200"
  by (simp add: on_day_def days_from_civil_def)

lemma older_than_scenario:
  assumes "on_day (2023, 1, 10) now"
  shows "filter (older_than now 4)
           [''logs-2023-01-01'', ''logs-2023-01-05'', ''logs-2023-01-10'']
         = [''logs-2023-01-01'', ''logs-2023-01-05'']"
  using assms
  by (simp add: on_day_jan_10 older_than_def name_epoch_jan_01 name_epoch_jan_05
      name_epoch_jan_10)

lemma scenario_run:
  assumes "on_day (2023, 1, 10) now"
  shows "main (cluster_world now
                 [''logs-2023-01-01'', ''logs-2023-01-05'', ''logs-2023-01-10''] del)
              [prog, ''es1:9200'']
         = ([Connect [''es1:9200''], Enumerate (Client [''es1:9200'']),
             Filter filter_kwargs
               \<lparr>indices = [''logs-2023-01-01'', ''logs-2023-01-05'', ''logs-2023-01-10'']\<rparr>,
             Delete (DeleteIndices \<lparr>indices = [''logs-2023-01-01'', ''logs-2023-01-05'']\<rparr>)],
            case del of Inl e \<Rightarrow> Raise e | Inr u \<Rightarrow> Ok u)"
  by (simp add: cluster_run older_than_scenario [OF assms] del: filter.simps)

lemma midnight_jan_10: "on_day (2023, 1, 10) 1673308800"
  by (simp add: on_day_jan_10)

section \<open>The claims\<close>

text \<open>
  C4: an invocation with no endpoint argument (\<^verbatim>\<open>sys.argv\<close> is the program name alone)
  prints the usage line and nothing else, ends with status 1, and builds no client.
\<close>

theorem C4_usage:
  "trace (main w [prog]) = [Print (''USAGE: '' @ prog @ '' HOSTNAME[:PORT] ...'')]
   \<and> printed (trace (main w [prog])) = [''USAGE: '' @ prog @ '' HOSTNAME[:PORT] ...'']
   \<and> exit_status (outcome (main w [prog])) = 1
   \<and> connect_calls (trace (main w [prog])) = []"
  by (simp add: main_no_args trace_def outcome_def usage_def)

text \<open>
  C1: on an invocation with endpoints, when the client is built, the enumeration returns
  a non-empty index list and the age filter returns a non-empty list, the run calls the
  delete action exactly once, on exactly the filtered list, after no other call than the
  connection, the enumeration and the filter, and ends with status 0 if the delete action
  returns.
\<close>

theorem C1_delete_filtered_once:
  assumes "length argv \<noteq> 1"
    and "Elasticsearch w (drop 1 argv) = Inr c"
    and "IndexList w c = Inr ilo" and "indices ilo \<noteq> []"
    and "filter_by_age w
           \<lparr>source = ''name'', direction = ''older'', timestring = ''%Y-%m-%d'',
            unit = ''days'', unit_count = 4\<rparr> ilo = Inr ilo'"
    and "indices ilo' \<noteq> []"
  shows "trace (main w argv)
           = [Connect (drop 1 argv), Enumerate c,
              Filter \<lparr>source = ''name'', direction = ''older'', timestring = ''%Y-%m-%d'',
                      unit = ''days'', unit_count = 4\<rparr> ilo,
              Delete (DeleteIndices ilo')]
         \<and> delete_calls (trace (main w argv)) = [ilo']
         \<and> (do_action w (DeleteIndices ilo') = Inr ()
              \<longrightarrow> outcome (main w argv) = Ok ()
                  \<and> exit_status (outcome (main w argv)) = 0)"
  using assms
  by (simp add: main_run trace_def outcome_def filter_kwargs_def)

theorem C1_delete_filtered_once_witness:
  "trace (main (cluster_world 1673308800
       [''logs-2023-01-01'', ''logs-2023-01-05'', ''logs-2023-01-10''] (Inr ()))
       [''esCleaner.py'', ''es2:9200'', ''es3''])
     = [Connect [''es2:9200'', ''es3''], Enumerate (Client [''es2:9200'', ''es3'']),
        Filter \<lparr>source = ''name'', direction = ''older'', timestring = ''%Y-%m-%d'',
                unit = ''days'', unit_count = 4\<rparr>
          \<lparr>indices = [''logs-2023-01-01'', ''logs-2023-01-05'', ''logs-2023-01-10'']\<rparr>,
        Delete (DeleteIndices \<lparr>indices = [''logs-2023-01-01'', ''logs-2023-01-05'']\<rparr>)]
   \<and> delete_calls (trace (main (cluster_world 1673308800
       [''logs-2023-01-01'', ''logs-2023-01-05'', ''logs-2023-01-10''] (Inr ()))
       [''esCleaner.py'', ''es2:9200'', ''es3'']))
     = [\<lparr>indices = [''logs-2023-01-01'', ''logs-2023-01-05'']\<rparr>]
   \<and> exit_status (outcome (main (cluster_world 1673308800
       [''logs-2023-01-01'', ''logs-2023-01-05'', ''logs-2023-01-10''] (Inr ()))
       [''esCleaner.py'', ''es2:9200'', ''es3''])) = 0"
proof -
  have args: "length [''esCleaner.py'', ''es2:9200'', ''es3''] \<noteq> 1"
    by simp
  have connected: "Elasticsearch (cluster_world 1673308800
        [''logs-2023-01-01'', ''logs-2023-01-05'', ''logs-2023-01-10''] (Inr ()))
      (drop 1 [''esCleaner.py'', ''es2:9200'', ''es3''])
      = Inr (Client [''es2:9200'', ''es3''])"
    by (simp add: cluster_world_def)
  have answer: "IndexList (cluster_world 1673308800
        [''logs-2023-01-01'', ''logs-2023-01-05'', ''logs-2023-01-10''] (Inr ()))
      (Client [''es2:9200'', ''es3''])
      = Inr \<lparr>indices = [''logs-2023-01-01'', ''logs-2023-01-05'', ''logs-2023-01-10'']\<rparr>"
    by (simp add: cluster_world_def)
  have filtered: "filter_by_age (cluster_world 1673308800
        [''logs-2023-01-01'', ''logs-2023-01-05'', ''logs-2023-01-10''] (Inr ()))
      \<lparr>source = ''name'', direction = ''older'', timestring = ''%Y-%m-%d'',
       unit = ''days'', unit_count = 4\<rparr>
      \<lparr>indices = [''logs-2023-01-01'', ''logs-2023-01-05'', ''logs-2023-01-10'']\<rparr>
      = Inr \<lparr>indices = [''logs-2023-01-01'', ''logs-2023-01-05'']\<rparr>"
    by (simp add: cluster_world_def filter_older_by_name_def
        older_than_scenario [OF midnight_jan_10] del: filter.simps)
  have deleted: "do_action (cluster_world 1673308800
        [''logs-2023-01-01'', ''logs-2023-01-05'', ''logs-2023-01-10''] (Inr ()))
      (DeleteIndices \<lparr>indices = [''logs-2023-01-01'', ''logs-2023-01-05'']\<rparr>) = Inr ()"
    by (simp add: cluster_world_def)
  show ?thesis
    using C1_delete_filtered_once [OF args connected answer _ filtered] deleted by simp
qed

text \<open>
  C2: on an invocation with endpoints, when the client is built and the enumeration
  returns an empty index list, the run prints \<^verbatim>\<open>ElasticSearch has no indices\<close> and
  nothing else, ends with status 0, and calls neither the filter nor the delete action.
\<close>

theorem C2_no_indices:
  assumes "length argv \<noteq> 1"
    and "Elasticsearch w (drop 1 argv) = Inr c"
    and "IndexList w c = Inr ilo" and "indices ilo = []"
  shows "trace (main w argv)
           = [Connect (drop 1 argv), Enumerate c, Print ''ElasticSearch has no indices'']
         \<and> printed (trace (main w argv)) = [''ElasticSearch has no indices'']
         \<and> outcome (main w argv) = SysExit 0
         \<and> exit_status (outcome (main w argv)) = 0
         \<and> filter_calls (trace (main w argv)) = []
         \<and> delete_calls (trace (main w argv)) = []"
  using assms
  by (simp add: main_run trace_def outcome_def)

theorem C2_no_indices_witness:
  "trace (main (cluster_world 1673308800 [] (Inr ())) [''esCleaner.py'', ''es2:9200''])
     = [Connect [''es2:9200''], Enumerate (Client [''es2:9200'']),
        Print ''ElasticSearch has no indices'']
   \<and> printed (trace (main (cluster_world 1673308800 [] (Inr ()))
       [''esCleaner.py'', ''es2:9200''])) = [''ElasticSearch has no indices'']
   \<and> exit_status (outcome (main (cluster_world 1673308800 [] (Inr ()))
       [''esCleaner.py'', ''es2:9200''])) = 0
   \<and> filter_calls (trace (main (cluster_world 1673308800 [] (Inr ()))
       [''esCleaner.py'', ''es2:9200''])) = []
   \<and> delete_calls (trace (main (cluster_world 1673308800 [] (Inr ()))
       [''esCleaner.py'', ''es2:9200''])) = []"
proof -
  have args: "length [''esCleaner.py'', ''es2:9200''] \<noteq> 1"
    by simp
  have connected: "Elasticsearch (cluster_world 1673308800 [] (Inr ()))
      (drop 1 [''esCleaner.py'', ''es2:9200'']) = Inr (Client [''es2:9200''])"
    by (simp add: cluster_world_def)
  have answer: "IndexList (cluster_world 1673308800 [] (Inr ())) (Client [''es2:9200''])
      = Inr \<lparr>indices = []\<rparr>"
    by (simp add: cluster_world_def)
  show ?thesis
    using C2_no_indices [OF args connected answer] by simp
qed

text \<open>
  C3: on an invocation with endpoints, when the client is built, the enumeration returns
  a non-empty list and the age filter (called on the index name, direction older, pattern
  \<^verbatim>\<open>%Y-%m-%d\<close>, 4 days) returns an empty one, the run prints \<^verbatim>\<open>No indices to delete\<close>
  and nothing else, ends with status 0, and does not call the delete action.
\<close>

theorem C3_nothing_to_delete:
  assumes "length argv \<noteq> 1"
    and "Elasticsearch w (drop 1 argv) = Inr c"
    and "IndexList w c = Inr ilo" and "indices ilo \<noteq> []"
    and "filter_by_age w
           \<lparr>source = ''name'', direction = ''older'', timestring = ''%Y-%m-%d'',
            unit = ''days'', unit_count = 4\<rparr> ilo = Inr ilo'"
    and "indices ilo' = []"
  shows "trace (main w argv)
           = [Connect (drop 1 argv), Enumerate c,
              Filter \<lparr>source = ''name'', direction = ''older'', timestring = ''%Y-%m-%d'',
                      unit = ''days'', unit_count = 4\<rparr> ilo,
              Print ''No indices to delete'']
         \<and> printed (trace (main w argv)) = [''No indices to delete'']
         \<and> outcome (main w argv) = SysExit 0
         \<and> exit_status (outcome (main w argv)) = 0
         \<and> delete_calls (trace (main w argv)) = []"
  using assms
  by (simp add: main_run trace_def outcome_def filter_kwargs_def)

theorem C3_nothing_to_delete_witness:
  "trace (main (cluster_world 1673308800 [''logs-2023-01-10''] (Inr ()))
       [''esCleaner.py'', ''es2:9200''])
     = [Connect [''es2:9200''], Enumerate (Client [''es2:9200'']),
        Filter \<lparr>source = ''name'', direction = ''older'', timestring = ''%Y-%m-%d'',
                unit = ''days'', unit_count = 4\<rparr> \<lparr>indices = [''logs-2023-01-10'']\<rparr>,
        Print ''No indices to delete'']
   \<and> printed (trace (main (cluster_world 1673308800 [''logs-2023-01-10''] (Inr ()))
       [''esCleaner.py'', ''es2:9200''])) = [''No indices to delete'']
   \<and> exit_status (outcome (main (cluster_world 1673308800 [''logs-2023-01-10''] (Inr ()))
       [''esCleaner.py'', ''es2:9200''])) = 0
   \<and> delete_calls (trace (main (cluster_world 1673308800 [''logs-2023-01-10''] (Inr ()))
       [''esCleaner.py'', ''es2:9200''])) = []"
proof -
  have none: "filter (older_than 1673308800 4) [''logs-2023-01-10''] = []"
    by (simp add: older_than_def name_epoch_jan_10)
  have args: "length [''esCleaner.py'', ''es2:9200''] \<noteq> 1"
    by simp
  have connected: "Elasticsearch (cluster_world 1673308800 [''logs-2023-01-10''] (Inr ()))
      (drop 1 [''esCleaner.py'', ''es2:9200'']) = Inr (Client [''es2:9200''])"
    by (simp add: cluster_world_def)
  have answer: "IndexList (cluster_world 1673308800 [''logs-2023-01-10''] (Inr ()))
      (Client [''es2:9200'']) = Inr \<lparr>indices = [''logs-2023-01-10'']\<rparr>"
    by (simp add: cluster_world_def)
  have filtered: "filter_by_age (cluster_world 1673308800 [''logs-2023-01-10''] (Inr ()))
      \<lparr>source = ''name'', direction = ''older'', timestring = ''%Y-%m-%d'',
       unit = ''days'', unit_count = 4\<rparr> \<lparr>indices = [''logs-2023-01-10'']\<rparr>
      = Inr \<lparr>indices = []\<rparr>"
    by (simp add: cluster_world_def filter_older_by_name_def none del: filter.simps)
  show ?thesis
    using C3_nothing_to_delete [OF args connected answer _ filtered] by simp
qed

text \<open>
  C5: when a call that the run makes (connection, enumeration, filter or delete) raises an
  error other than \<^verbatim>\<open>NoIndices\<close>, the run ends with that error unhandled: neither
  informational message is printed and the status is not 0.
\<close>

theorem C5_errors_propagate:
  assumes "ev \<in> set (trace (main w argv))" and "raises w ev e" and "e \<noteq> NoIndices"
  shows "outcome (main w argv) = Raise e
         \<and> ''ElasticSearch has no indices'' \<notin> set (printed (trace (main w argv)))
         \<and> ''No indices to delete'' \<notin> set (printed (trace (main w argv)))
         \<and> exit_status (outcome (main w argv)) \<noteq> 0"
  using assms
  by (auto simp add: main_run trace_def outcome_def split: if_splits sum.splits)

theorem C5_errors_propagate_witness:
  "outcome (main (cluster_world 1673308800
       [''logs-2023-01-01'', ''logs-2023-01-05'', ''logs-2023-01-10'']
       (Inl (Other ''TransportError''))) [''esCleaner.py'', ''es1:9200''])
     = Raise (Other ''TransportError'')
   \<and> ''ElasticSearch has no indices'' \<notin> set (printed (trace (main (cluster_world 1673308800
       [''logs-2023-01-01'', ''logs-2023-01-05'', ''logs-2023-01-10'']
       (Inl (Other ''TransportError''))) [''esCleaner.py'', ''es1:9200''])))
   \<and> ''No indices to delete'' \<notin> set (printed (trace (main (cluster_world 1673308800
       [''logs-2023-01-01'', ''logs-2023-01-05'', ''logs-2023-01-10'']
       (Inl (Other ''TransportError''))) [''esCleaner.py'', ''es1:9200''])))
   \<and> exit_status (outcome (main (cluster_world 1673308800
       [''logs-2023-01-01'', ''logs-2023-01-05'', ''logs-2023-01-10'']
       (Inl (Other ''TransportError''))) [''esCleaner.py'', ''es1:9200''])) \<noteq> 0"
proof -
  have called: "Delete (DeleteIndices \<lparr>indices = [''logs-2023-01-01'', ''logs-2023-01-05'']\<rparr>)
      \<in> set (trace (main (cluster_world 1673308800
           [''logs-2023-01-01'', ''logs-2023-01-05'', ''logs-2023-01-10'']
           (Inl (Other ''TransportError''))) [''esCleaner.py'', ''es1:9200'']))"
    by (simp add: scenario_run [OF midnight_jan_10] trace_def)
  have raised: "raises (cluster_world 1673308800
        [''logs-2023-01-01'', ''logs-2023-01-05'', ''logs-2023-01-10'']
        (Inl (Other ''TransportError'')))
      (Delete (DeleteIndices \<lparr>indices = [''logs-2023-01-01'', ''logs-2023-01-05'']\<rparr>))
      (Other ''TransportError'')"
    by (simp add: cluster_world_def)
  show ?thesis
    using C5_errors_propagate [OF called raised] by simp
qed

text \<open>
  C6: every call of the age filter that a run makes has the same keyword arguments,
  whatever the arguments of the process and whatever the libraries answer: source
  \<^verbatim>\<open>name\<close>, direction \<^verbatim>\<open>older\<close>, pattern \<^verbatim>\<open>%Y-%m-%d\<close>, unit \<^verbatim>\<open>days\<close>, count 4.
\<close>

theorem C6_fixed_filter_configuration:
  assumes "(p, ilo) \<in> set (filter_calls (trace (main w argv)))"
  shows "source p = ''name'' \<and> direction p = ''older'' \<and> timestring p = ''%Y-%m-%d''
         \<and> unit p = ''days'' \<and> unit_count p = 4"
  using assms
  by (auto simp add: main_run trace_def filter_kwargs_def split: if_splits sum.splits)

theorem C6_fixed_filter_configuration_witness:
  "\<exists>p ilo. (p, ilo) \<in> set (filter_calls (trace (main (cluster_world 1673308800
       [''logs-2023-01-01'', ''logs-2023-01-05'', ''logs-2023-01-10''] (Inr ()))
       [''esCleaner.py'', ''es1:9200''])))
     \<and> source p = ''name'' \<and> direction p = ''older'' \<and> timestring p = ''%Y-%m-%d''
     \<and> unit p = ''days'' \<and> unit_count p = 4"
proof -
  have called: "(filter_kwargs,
       \<lparr>indices = [''logs-2023-01-01'', ''logs-2023-01-05'', ''logs-2023-01-10'']\<rparr>)
      \<in> set (filter_calls (trace (main (cluster_world 1673308800
           [''logs-2023-01-01'', ''logs-2023-01-05'', ''logs-2023-01-10''] (Inr ()))
           [''esCleaner.py'', ''es1:9200''])))"
    by (simp add: scenario_run [OF midnight_jan_10] trace_def)
  show ?thesis
    using C6_fixed_filter_configuration [OF called] called by blast
qed

text \<open>
  C7: the scenario of the spec.  Endpoints \<^verbatim>\<open>es1:9200\<close>, a cluster with the indices
  \<^verbatim>\<open>logs-2023-01-01\<close>, \<^verbatim>\<open>logs-2023-01-05\<close> and \<^verbatim>\<open>logs-2023-01-10\<close>, and any instant
  of 2023-01-10 as ``now'': the delete action is called once, on the indices
  \<^verbatim>\<open>logs-2023-01-01\<close> and \<^verbatim>\<open>logs-2023-01-05\<close>, and the status is 0.
\<close>

theorem C7_scenario:
  assumes "on_day (2023, 1, 10) now"
  shows "delete_calls (trace (main (cluster_world now
             [''logs-2023-01-01'', ''logs-2023-01-05'', ''logs-2023-01-10''] (Inr ()))
             [prog, ''es1:9200'']))
           = [\<lparr>indices = [''logs-2023-01-01'', ''logs-2023-01-05'']\<rparr>]
         \<and> map (\<lambda>ilo. set (indices ilo))
             (delete_calls (trace (main (cluster_world now
               [''logs-2023-01-01'', ''logs-2023-01-05'', ''logs-2023-01-10''] (Inr ()))
               [prog, ''es1:9200''])))
           = [{''logs-2023-01-01'', ''logs-2023-01-05''}]
         \<and> exit_status (outcome (main (cluster_world now
             [''logs-2023-01-01'', ''logs-2023-01-05'', ''logs-2023-01-10''] (Inr ()))
             [prog, ''es1:9200''])) = 0"
  by (simp add: scenario_run [OF assms] trace_def outcome_def)

theorem C7_scenario_witness:
  "on_day (2023, 1, 10) 1673308800
   \<and> delete_calls (trace (main (cluster_world 1673308800
         [''logs-2023-01-01'', ''logs-2023-01-05'', ''logs-2023-01-10''] (Inr ()))
         [''esCleaner.py'', ''es1:9200'']))
       = [\<lparr>indices = [''logs-2023-01-01'', ''logs-2023-01-05'']\<rparr>]
   \<and> exit_status (outcome (main (cluster_world 1673308800
         [''logs-2023-01-01'', ''logs-2023-01-05'', ''logs-2023-01-10''] (Inr ()))
         [''esCleaner.py'', ''es1:9200''])) = 0"
  using C7_scenario [OF midnight_jan_10, of "''esCleaner.py''"] midnight_jan_10 by simp

text \<open>
  C8: with at least one argument after the program name, the run builds the client
  first, once, from exactly those arguments, in their order and unchanged.
\<close>

theorem C8_endpoints_verbatim:
  assumes "args \<noteq> []"
  shows "connect_calls (trace (main w (prog # args))) = [args]
         \<and> take 1 (trace (main w (prog # args))) = [Connect args]"
  using assms
  by (auto simp add: main_run trace_def split: if_splits sum.splits)

theorem C8_endpoints_verbatim_witness:
  "connect_calls (trace (main (cluster_world 1673308800 [] (Inr ()))
       [''esCleaner.py'', ''es1:9200'', ''es2'', ''es1:9200''])) = [[''es1:9200'', ''es2'', ''es1:9200'']]
   \<and> take 1 (trace (main (cluster_world 1673308800 [] (Inr ()))
       [''esCleaner.py'', ''es1:9200'', ''es2'', ''es1:9200'']))
     = [Connect [''es1:9200'', ''es2'', ''es1:9200'']]"
  using C8_endpoints_verbatim [of "[''es1:9200'', ''es2'', ''es1:9200'']"
      "cluster_world 1673308800 [] (Inr ())" "''esCleaner.py''"]
  by simp

text \<open>
  C9: a run prints at most one informational message, at most once.  Whichever it prints
  is the last thing the run does, and the run then ends through \<^verbatim>\<open>sys.exit(0)\<close>.  When
  \<^verbatim>\<open>No indices to delete\<close> is printed, the enumeration had returned a non-empty list.
\<close>

theorem C9_at_most_one_message:
  "length (filter (\<lambda>s. s = ''ElasticSearch has no indices'' \<or> s = ''No indices to delete'')
             (printed (trace (main w argv)))) \<le> 1
   \<and> \<not> (''ElasticSearch has no indices'' \<in> set (printed (trace (main w argv)))
        \<and> ''No indices to delete'' \<in> set (printed (trace (main w argv))))
   \<and> (''ElasticSearch has no indices'' \<in> set (printed (trace (main w argv))) \<longrightarrow>
        last (trace (main w argv)) = Print ''ElasticSearch has no indices''
        \<and> outcome (main w argv) = SysExit 0
        \<and> exit_status (outcome (main w argv)) = 0)
   \<and> (''No indices to delete'' \<in> set (printed (trace (main w argv))) \<longrightarrow>
        last (trace (main w argv)) = Print ''No indices to delete''
        \<and> outcome (main w argv) = SysExit 0
        \<and> exit_status (outcome (main w argv)) = 0
        \<and> (\<exists>c ilo. Enumerate c \<in> set (trace (main w argv))
              \<and> IndexList w c = Inr ilo \<and> indices ilo \<noteq> []))"
  by (simp add: main_run trace_def outcome_def usage_not_message
      usage_not_message [symmetric] split: sum.splits)

theorem C9_at_most_one_message_witness:
  "''No indices to delete'' \<in> set (printed (trace (main
       (cluster_world 1673308800 [''logs-2023-01-10''] (Inr ()))
       [''esCleaner.py'', ''es1:9200''])))
   \<and> ''ElasticSearch has no indices'' \<notin> set (printed (trace (main
       (cluster_world 1673308800 [''logs-2023-01-10''] (Inr ()))
       [''esCleaner.py'', ''es1:9200''])))
   \<and> last (trace (main (cluster_world 1673308800 [''logs-2023-01-10''] (Inr ()))
       [''esCleaner.py'', ''es1:9200''])) = Print ''No indices to delete''
   \<and> outcome (main (cluster_world 1673308800 [''logs-2023-01-10''] (Inr ()))
       [''esCleaner.py'', ''es1:9200'']) = SysExit 0
   \<and> (\<exists>c ilo. Enumerate c \<in> set (trace (main
         (cluster_world 1673308800 [''logs-2023-01-10''] (Inr ()))
         [''esCleaner.py'', ''es1:9200'']))
       \<and> IndexList (cluster_world 1673308800 [''logs-2023-01-10''] (Inr ())) c = Inr ilo
       \<and> indices ilo \<noteq> [])"
proof -
  have none: "filter (older_than 1673308800 4) [''logs-2023-01-10''] = []"
    by (simp add: older_than_def name_epoch_jan_10)
  have shown: "''No indices to delete'' \<in> set (printed (trace (main
       (cluster_world 1673308800 [''logs-2023-01-10''] (Inr ()))
       [''esCleaner.py'', ''es1:9200''])))"
    by (simp add: cluster_run none trace_def del: filter.simps)
  show ?thesis
    using C9_at_most_one_message [of "cluster_world 1673308800 [''logs-2023-01-10''] (Inr ())"
        "[''esCleaner.py'', ''es1:9200'']"] shown
    by blast
qed

text \<open>
  C10: \<^verbatim>\<open>NoIndices\<close> becomes a success exit at the two checkpoints only.  A run that ends
  through \<^verbatim>\<open>sys.exit(0)\<close> has made no call that raised, and the enumeration or the filter
  had returned an empty list.  When a call that the run makes raises \<^verbatim>\<open>NoIndices\<close>, and
  the delete action in particular, the run ends with \<^verbatim>\<open>NoIndices\<close> unhandled, with
  status 1 and no message.
\<close>

theorem C10_no_indices_only_at_checkpoints:
  "(outcome (main w argv) = SysExit 0 \<longrightarrow>
      (\<forall>ev \<in> set (trace (main w argv)). \<forall>e. \<not> raises w ev e)
      \<and> (\<exists>ilo. indices ilo = []
            \<and> ((\<exists>c. Enumerate c \<in> set (trace (main w argv)) \<and> IndexList w c = Inr ilo)
               \<or> (\<exists>p ilo0. Filter p ilo0 \<in> set (trace (main w argv))
                     \<and> filter_by_age w p ilo0 = Inr ilo))))
   \<and> (\<forall>ev \<in> set (trace (main w argv)). raises w ev NoIndices \<longrightarrow>
        outcome (main w argv) = Raise NoIndices
        \<and> exit_status (outcome (main w argv)) = 1
        \<and> printed (trace (main w argv)) = [])
   \<and> (\<forall>d. Delete d \<in> set (trace (main w argv)) \<and> do_action w d = Inl NoIndices \<longrightarrow>
        outcome (main w argv) = Raise NoIndices
        \<and> exit_status (outcome (main w argv)) = 1
        \<and> printed (trace (main w argv)) = [])"
  by (auto simp add: main_run trace_def outcome_def split: if_splits sum.splits)

theorem C10_no_indices_only_at_checkpoints_witness:
  "Delete (DeleteIndices \<lparr>indices = [''logs-2023-01-01'', ''logs-2023-01-05'']\<rparr>)
     \<in> set (trace (main (cluster_world 1673308800
          [''logs-2023-01-01'', ''logs-2023-01-05'', ''logs-2023-01-10''] (Inl NoIndices))
          [''esCleaner.py'', ''es1:9200'']))
   \<and> do_action (cluster_world 1673308800
          [''logs-2023-01-01'', ''logs-2023-01-05'', ''logs-2023-01-10''] (Inl NoIndices))
        (DeleteIndices \<lparr>indices = [''logs-2023-01-01'', ''logs-2023-01-05'']\<rparr>) = Inl NoIndices
   \<and> outcome (main (cluster_world 1673308800
          [''logs-2023-01-01'', ''logs-2023-01-05'', ''logs-2023-01-10''] (Inl NoIndices))
          [''esCleaner.py'', ''es1:9200'']) = Raise NoIndices
   \<and> exit_status (outcome (main (cluster_world 1673308800
          [''logs-2023-01-01'', ''logs-2023-01-05'', ''logs-2023-01-10''] (Inl NoIndices))
          [''esCleaner.py'', ''es1:9200''])) = 1
   \<and> printed (trace (main (cluster_world 1673308800
          [''logs-2023-01-01'', ''logs-2023-01-05'', ''logs-2023-01-10''] (Inl NoIndices))
          [''esCleaner.py'', ''es1:9200''])) = []"
proof -
  have called: "Delete (DeleteIndices \<lparr>indices = [''logs-2023-01-01'', ''logs-2023-01-05'']\<rparr>)
      \<in> set (trace (main (cluster_world 1673308800
           [''logs-2023-01-01'', ''logs-2023-01-05'', ''logs-2023-01-10''] (Inl NoIndices))
           [''esCleaner.py'', ''es1:9200'']))"
    by (simp add: scenario_run [OF midnight_jan_10] trace_def)
  have raised: "do_action (cluster_world 1673308800
        [''logs-2023-01-01'', ''logs-2023-01-05'', ''logs-2023-01-10''] (Inl NoIndices))
      (DeleteIndices \<lparr>indices = [''logs-2023-01-01'', ''logs-2023-01-05'']\<rparr>) = Inl NoIndices"
    by (simp add: cluster_world_def)
  show ?thesis
    using C10_no_indices_only_at_checkpoints [of "cluster_world 1673308800
        [''logs-2023-01-01'', ''logs-2023-01-05'', ''logs-2023-01-10''] (Inl NoIndices)"
        "[''esCleaner.py'', ''es1:9200'']"] called raised
    by blast
qed

end
